theory Spec2Isabelle
  imports Main "HOL-Library.Word"
begin

section \<open>The contract PrivateRetirementPlanner\<close>

text \<open>
  The protocol logic of the repository is the Solidity contract
  \<^verbatim>\<open>PrivateRetirementPlanner\<close> (the second document of
  \<^verbatim>\<open>src/frontend/web/src/App.tsx\<close>). This theory embeds its storage, its
  functions and its modifier, and settles the properties of the request and callback
  protocol against them.
\<close>

subsection \<open>Value types\<close>

type_synonym address = "160 word"
type_synonym uint32 = "32 word"
type_synonym uint256 = "256 word"
type_synonym bytes32 = "256 word"
type_synonym bytes = "8 word list"

text \<open>
  \<^verbatim>\<open>euint32\<close> is a user-defined value type over \<^verbatim>\<open>bytes32\<close>: an opaque
  ciphertext handle. The zero handle is the default value of every storage slot.
\<close>

datatype euint32 = Euint32 (unwrap: bytes32)

record EncryptedFinancialData =
  encryptedAssets :: euint32
  encryptedAnnualIncome :: euint32
  encryptedRetirementAge :: euint32
  encryptedLifeExpectancy :: euint32
  encryptedTargetIncome :: euint32

record SimulationResult =
  encryptedStrategy :: euint32
  encryptedWithdrawal :: euint32
  encryptedSuccessRate :: euint32
  isSimulated :: bool

text \<open>
  The storage of the contract is its two mappings and, in a slot of its own, the
  bookkeeping of the FHE library, which runs inside the contract: the counter the
  request identifiers are taken from and the handles recorded under each identifier. A
  Solidity mapping is total: a key never written reads as the zero value, the empty
  array for the recorded handles.
\<close>

record contract_state =
  userFinancialData :: "address \<Rightarrow> EncryptedFinancialData"
  simulationResults :: "address \<Rightarrow> SimulationResult"
  counterRequest :: uint256
  requestedHandles :: "uint256 \<Rightarrow> bytes32 list"

definition zero_data :: EncryptedFinancialData where
  "zero_data = \<lparr>encryptedAssets = Euint32 0, encryptedAnnualIncome = Euint32 0,
     encryptedRetirementAge = Euint32 0, encryptedLifeExpectancy = Euint32 0,
     encryptedTargetIncome = Euint32 0\<rparr>"

definition zero_result :: SimulationResult where
  "zero_result = \<lparr>encryptedStrategy = Euint32 0, encryptedWithdrawal = Euint32 0,
     encryptedSuccessRate = Euint32 0, isSimulated = False\<rparr>"

definition init_state :: contract_state where
  "init_state = \<lparr>userFinancialData = (\<lambda>_. zero_data), simulationResults = (\<lambda>_. zero_result),
     counterRequest = 0, requestedHandles = (\<lambda>_. [])\<rparr>"

text \<open>The withdrawal strategies and simulation parameters, as the contract declares them.\<close>

definition FIXED_PERCENTAGE :: uint32 where "FIXED_PERCENTAGE = 1"
definition INFLATION_ADJUSTED :: uint32 where "INFLATION_ADJUSTED = 2"
definition DYNAMIC_SPENDING :: uint32 where "DYNAMIC_SPENDING = 3"
definition SIMULATION_YEARS :: uint32 where "SIMULATION_YEARS = 30"
definition DEFAULT_RETURN_RATE :: uint32 where "DEFAULT_RETURN_RATE = 5"

subsection \<open>Events, external calls and reverts\<close>

text \<open>Every event of the contract carries one indexed address and nothing else.\<close>

datatype event =
  FinancialDataSubmitted address
| SimulationRequested address
| SimulationCompleted address
| StrategyDecrypted address

text \<open>The callback selectors handed to the dispatcher.\<close>

datatype selector = RunSimulation_selector | DecryptStrategy_selector

text \<open>
  What a successful transaction of the contract does besides writing storage: it emits
  its events and hands ciphertext handles to the dispatcher under a request identifier.
  What the library itself emits on the way is not recorded.
\<close>

datatype effect =
  Emit event
| RequestComputation "bytes32 list" selector uint256
| RequestDecryption "bytes32 list" selector uint256

text \<open>
  A transaction that reverts has no effect at all. \<open>Error\<close> carries the message of a
  failed \<^verbatim>\<open>require\<close>, \<open>Panic\<close> the code of a failed built-in check (0x32: array
  index out of bounds), \<open>DecodeFailure\<close> stands for every way in which
  \<^verbatim>\<open>abi.decode\<close> stops on malformed data. \<^verbatim>\<open>FHE.checkSignatures\<close> reverts in two
  ways: \<open>NoHandleFoundForRequestID\<close> when nothing is recorded under the request
  identifier (the UnknownRequest of the specification) and \<open>InvalidSignatures\<close> when
  the proof does not verify (its InvalidProof).
\<close>

datatype revert =
  Error string
| Panic nat
| DecodeFailure
| NoHandleFoundForRequestID
| InvalidSignatures

subsection \<open>The FHE library\<close>

text \<open>
  The contract imports \<^verbatim>\<open>FHE\<close> from \<^verbatim>\<open>@fhevm/solidity\<close>; the library is not part
  of the repository. Its cryptography is a parameter of the model: \<open>asEuint32\<close>
  returns the handle of the trivial encryption of a cleartext, and \<open>verifySignatures\<close>
  says whether the proof authenticates the payload for the request identifier and the
  handles recorded under it.
\<close>

record fhe =
  asEuint32 :: "uint32 \<Rightarrow> euint32"
  verifySignatures :: "uint256 \<Rightarrow> bytes32 list \<Rightarrow> bytes \<Rightarrow> bytes \<Rightarrow> bool"

text \<open>
  Modelled from the spec: the request operations of the absent library,
  \<^verbatim>\<open>FHE.requestComputation\<close> and \<^verbatim>\<open>FHE.requestDecryption\<close>. A request obtains a
  fresh identifier, the current value of the request counter, records the dispatched
  handles under it in the storage of the calling contract, and advances the counter.
  The result is the identifier and the storage after. The guards of the library on this
  path (a counter about to overflow, an identifier that already holds a record) cannot
  fire before the counter has run through all 256-bit values and are left out.
\<close>

definition requestComputation ::
  "contract_state \<Rightarrow> bytes32 list \<Rightarrow> selector \<Rightarrow> uint256 \<times> contract_state" where
  "requestComputation s ctsHandles callbackSelector =
     (counterRequest s,
      s\<lparr>requestedHandles := (requestedHandles s)(counterRequest s := ctsHandles),
        counterRequest := counterRequest s + 1\<rparr>)"

definition requestDecryption ::
  "contract_state \<Rightarrow> bytes32 list \<Rightarrow> selector \<Rightarrow> uint256 \<times> contract_state" where
  "requestDecryption s ctsHandles callbackSelector =
     (counterRequest s,
      s\<lparr>requestedHandles := (requestedHandles s)(counterRequest s := ctsHandles),
        counterRequest := counterRequest s + 1\<rparr>)"

text \<open>
  Modelled from the spec: \<^verbatim>\<open>FHE.checkSignatures\<close> of the absent library. It resolves
  the request identifier against the recorded requests and reverts when nothing is
  recorded under it; then it verifies the proof and reverts when that fails. It reads
  the record and never deletes it: \<open>None\<close> says that the check passed, and the storage
  is as before.
\<close>

definition checkSignatures ::
  "fhe \<Rightarrow> contract_state \<Rightarrow> uint256 \<Rightarrow> bytes \<Rightarrow> bytes \<Rightarrow> revert option" where
  "checkSignatures lib s requestId payload prf =
     (let handlesList = requestedHandles s requestId in
      if handlesList = [] then Some NoHandleFoundForRequestID
      else if \<not> verifySignatures lib requestId handlesList payload prf then Some InvalidSignatures
      else None)"

text \<open>\<^verbatim>\<open>FHE.toBytes32\<close> unwraps a handle.\<close>

definition toBytes32 :: "euint32 \<Rightarrow> bytes32" where
  "toBytes32 v = unwrap v"

text \<open>
  Modelled from the spec: \<^verbatim>\<open>isInitialized\<close> belongs to the absent library. A record is
  either fully absent or fully populated, and an absent record reads as zero handles,
  so a handle is initialised when it is not the zero handle.
\<close>

definition isInitialized :: "euint32 \<Rightarrow> bool" where
  "isInitialized v \<longleftrightarrow> unwrap v \<noteq> 0"

subsection \<open>ABI decoding\<close>

text \<open>
  \<^verbatim>\<open>abi.decode\<close> reads 32-byte big-endian words. It stops when the data is too
  short for what its head announces (an offset or a length above 64 bits included) and
  when a \<^verbatim>\<open>uint32\<close> word has a bit set above the low 32; bytes after the encoded value
  are ignored. A \<^verbatim>\<open>uint32[]\<close> is encoded as the offset of its tail, and the tail as the
  number of elements followed by one word for each.
\<close>

definition be_nat :: "bytes \<Rightarrow> nat" where
  "be_nat bs = foldl (\<lambda>acc b. acc * 256 + unat b) 0 bs"

definition mload :: "bytes \<Rightarrow> nat \<Rightarrow> nat" where
  "mload bs off = be_nat (take 32 (drop off bs))"

definition decode_uint32_word :: "nat \<Rightarrow> uint32 option" where
  "decode_uint32_word v = (if v < 2 ^ 32 then Some (of_nat v) else None)"

definition abi_decode_uint32 :: "bytes \<Rightarrow> uint32 option" where
  "abi_decode_uint32 bs =
     (if length bs < 32 then None else decode_uint32_word (mload bs 0))"

definition abi_decode_uint32_array :: "bytes \<Rightarrow> uint32 list option" where
  "abi_decode_uint32_array bs =
     (if length bs < 32 then None
      else let offset = mload bs 0 in
        if offset > 2 ^ 64 - 1 \<or> length bs \<le> offset + 31 then None
        else let len = mload bs offset in
          if len > 2 ^ 64 - 1 \<or> offset + 32 + len * 32 > length bs then None
          else those (map (\<lambda>i. decode_uint32_word (mload bs (offset + 32 + i * 32))) [0..<len]))"

subsection \<open>The functions of the contract\<close>

text \<open>
  Each function takes the library, the state before and \<^verbatim>\<open>msg.sender\<close>, and returns
  either the revert or the state after with the effects in order.
\<close>

definition onlyDataOwner :: "contract_state \<Rightarrow> address \<Rightarrow> bool" where
  "onlyDataOwner s sender \<longleftrightarrow> isInitialized (encryptedAssets (userFinancialData s sender))"

definition submitEncryptedData ::
  "fhe \<Rightarrow> contract_state \<Rightarrow> address \<Rightarrow> euint32 \<Rightarrow> euint32 \<Rightarrow> euint32 \<Rightarrow> euint32 \<Rightarrow> euint32
     \<Rightarrow> revert + contract_state \<times> effect list" where
  "submitEncryptedData lib s sender assets annualIncome retirementAge lifeExpectancy targetIncome =
     Inr (s\<lparr>userFinancialData := (userFinancialData s)(sender :=
               \<lparr>encryptedAssets = assets, encryptedAnnualIncome = annualIncome,
                encryptedRetirementAge = retirementAge,
                encryptedLifeExpectancy = lifeExpectancy,
                encryptedTargetIncome = targetIncome\<rparr>),
            simulationResults := (simulationResults s)(sender :=
               \<lparr>encryptedStrategy = asEuint32 lib 0, encryptedWithdrawal = asEuint32 lib 0,
                encryptedSuccessRate = asEuint32 lib 0, isSimulated = False\<rparr>)\<rparr>,
          [Emit (FinancialDataSubmitted sender)])"

definition requestRetirementSimulation ::
  "fhe \<Rightarrow> contract_state \<Rightarrow> address \<Rightarrow> revert + contract_state \<times> effect list" where
  "requestRetirementSimulation lib s sender =
     (if \<not> onlyDataOwner s sender then Inl (Error ''No data submitted'')
      else if isSimulated (simulationResults s sender)
        then Inl (Error ''Simulation already completed'')
      else let data = userFinancialData s sender;
               ciphertexts = [toBytes32 (encryptedAssets data),
                              toBytes32 (encryptedAnnualIncome data),
                              toBytes32 (encryptedRetirementAge data),
                              toBytes32 (encryptedLifeExpectancy data),
                              toBytes32 (encryptedTargetIncome data)];
               (reqId, s') = requestComputation s ciphertexts RunSimulation_selector
           in Inr (s', [RequestComputation ciphertexts RunSimulation_selector reqId,
                        Emit (SimulationRequested sender)]))"

definition runSimulation ::
  "fhe \<Rightarrow> contract_state \<Rightarrow> address \<Rightarrow> uint256 \<Rightarrow> bytes \<Rightarrow> bytes
     \<Rightarrow> revert + contract_state \<times> effect list" where
  "runSimulation lib s sender requestId results prf =
     (case checkSignatures lib s requestId results prf of
        Some e \<Rightarrow> Inl e
      | None \<Rightarrow>
         (case abi_decode_uint32_array results of
            None \<Rightarrow> Inl DecodeFailure
          | Some simResults \<Rightarrow>
              if length simResults < 3 then Inl (Panic 0x32)
              else let user = sender in
                Inr (s\<lparr>simulationResults := (simulationResults s)(user :=
                         \<lparr>encryptedStrategy = asEuint32 lib (simResults ! 0),
                          encryptedWithdrawal = asEuint32 lib (simResults ! 1),
                          encryptedSuccessRate = asEuint32 lib (simResults ! 2),
                          isSimulated = True\<rparr>)\<rparr>,
                     [Emit (SimulationCompleted user)])))"

definition requestStrategyDecryption ::
  "fhe \<Rightarrow> contract_state \<Rightarrow> address \<Rightarrow> revert + contract_state \<times> effect list" where
  "requestStrategyDecryption lib s sender =
     (if \<not> onlyDataOwner s sender then Inl (Error ''No data submitted'')
      else if \<not> isSimulated (simulationResults s sender)
        then Inl (Error ''Simulation not completed'')
      else let ciphertexts = [toBytes32 (encryptedStrategy (simulationResults s sender))];
               (reqId, s') = requestDecryption s ciphertexts DecryptStrategy_selector
           in Inr (s', [RequestDecryption ciphertexts DecryptStrategy_selector reqId]))"

definition decryptStrategy ::
  "fhe \<Rightarrow> contract_state \<Rightarrow> address \<Rightarrow> uint256 \<Rightarrow> bytes \<Rightarrow> bytes
     \<Rightarrow> revert + contract_state \<times> effect list" where
  "decryptStrategy lib s sender requestId cleartexts prf =
     (case checkSignatures lib s requestId cleartexts prf of
        Some e \<Rightarrow> Inl e
      | None \<Rightarrow>
         (case abi_decode_uint32 cleartexts of
            None \<Rightarrow> Inl DecodeFailure
          | Some strategy \<Rightarrow> Inr (s, [Emit (StrategyDecrypted sender)])))"

text \<open>The two view functions read storage and return a handle; they cannot write.\<close>

definition getEncryptedWithdrawal :: "contract_state \<Rightarrow> address \<Rightarrow> revert + euint32" where
  "getEncryptedWithdrawal s sender =
     (if \<not> onlyDataOwner s sender then Inl (Error ''No data submitted'')
      else Inr (encryptedWithdrawal (simulationResults s sender)))"

definition getEncryptedSuccessRate :: "contract_state \<Rightarrow> address \<Rightarrow> revert + euint32" where
  "getEncryptedSuccessRate s sender =
     (if \<not> onlyDataOwner s sender then Inl (Error ''No data submitted'')
      else Inr (encryptedSuccessRate (simulationResults s sender)))"

subsection \<open>Transactions and histories\<close>

text \<open>
  A transaction is a sender and a call of one of the five state-changing functions. A
  reverted transaction leaves the state as it was; a history is run from left to right.
\<close>

datatype call =
  SubmitEncryptedData euint32 euint32 euint32 euint32 euint32
| RequestRetirementSimulation
| RunSimulation uint256 bytes bytes
| RequestStrategyDecryption
| DecryptStrategy uint256 bytes bytes

fun dispatch :: "fhe \<Rightarrow> contract_state \<Rightarrow> address \<Rightarrow> call \<Rightarrow> revert + contract_state \<times> effect list" where
  "dispatch lib s sender (SubmitEncryptedData a b c d e) = submitEncryptedData lib s sender a b c d e"
| "dispatch lib s sender RequestRetirementSimulation = requestRetirementSimulation lib s sender"
| "dispatch lib s sender (RunSimulation requestId results prf) =
     runSimulation lib s sender requestId results prf"
| "dispatch lib s sender RequestStrategyDecryption = requestStrategyDecryption lib s sender"
| "dispatch lib s sender (DecryptStrategy requestId cleartexts prf) =
     decryptStrategy lib s sender requestId cleartexts prf"

definition state_after :: "contract_state \<Rightarrow> revert + contract_state \<times> effect list \<Rightarrow> contract_state" where
  "state_after s r = (case r of Inl _ \<Rightarrow> s | Inr (s', _) \<Rightarrow> s')"

definition transact :: "fhe \<Rightarrow> contract_state \<Rightarrow> address \<times> call \<Rightarrow> contract_state" where
  "transact lib s tx = state_after s (dispatch lib s (fst tx) (snd tx))"

definition run :: "fhe \<Rightarrow> contract_state \<Rightarrow> (address \<times> call) list \<Rightarrow> contract_state" where
  "run lib s txs = foldl (transact lib) s txs"

text \<open>Whether a transaction is a submission sent by the given address.\<close>

definition submits_as :: "address \<Rightarrow> address \<times> call \<Rightarrow> bool" where
  "submits_as a tx \<longleftrightarrow>
     fst tx = a \<and> (case snd tx of SubmitEncryptedData _ _ _ _ _ \<Rightarrow> True | _ \<Rightarrow> False)"




subsection \<open>Sample data\<close>

text \<open>
  Concrete inputs at which the theorems below are instantiated: a library whose proofs
  are the low byte of the request identifier followed by the payload, two addresses, a
  submission, ABI encodings built from 32-byte words of small numbers, and the states
  of one history: Alice submits, requests a simulation (identifier 0), receives its
  result, and requests the decryption of her strategy (identifier 1).
\<close>

definition sample_lib :: fhe where
  "sample_lib = \<lparr>asEuint32 = (\<lambda>v. Euint32 (ucast v + 1)),
     verifySignatures = (\<lambda>requestId handlesList payload prf. prf = ucast requestId # payload)\<rparr>"

definition alice :: address where "alice = 0xA11CE"
definition bob :: address where "bob = 0xB0B"

definition word32 :: "nat \<Rightarrow> bytes" where
  "word32 n = replicate 31 0 @ [of_nat n]"

definition sample_results :: bytes where
  "sample_results = word32 32 @ word32 3 @ word32 2 @ word32 100 @ word32 90"

definition sample_results_strategy7 :: bytes where
  "sample_results_strategy7 = word32 32 @ word32 3 @ word32 7 @ word32 100 @ word32 90"

definition sample_submit :: call where
  "sample_submit =
     SubmitEncryptedData (Euint32 11) (Euint32 12) (Euint32 13) (Euint32 14) (Euint32 15)"

definition alice_submitted :: contract_state where
  "alice_submitted = transact sample_lib init_state (alice, sample_submit)"

definition alice_requested :: contract_state where
  "alice_requested = transact sample_lib alice_submitted (alice, RequestRetirementSimulation)"

definition alice_completed :: contract_state where
  "alice_completed =
     transact sample_lib alice_requested (alice, RunSimulation 0 sample_results (0 # sample_results))"

definition alice_decrypting :: contract_state where
  "alice_decrypting = transact sample_lib alice_completed (alice, RequestStrategyDecryption)"



text \<open>Bob delivers a result for the identifier of Alice's request.\<close>

definition bob_delivered :: contract_state where
  "bob_delivered =
     transact sample_lib alice_requested (bob, RunSimulation 0 sample_results (0 # sample_results))"

section \<open>Properties\<close>

subsection \<open>Decoding the sample data\<close>

lemma length_word32: "length (word32 n) = 32"
  by (simp add: word32_def)

lemma foldl_zeros: "foldl (\<lambda>acc b. acc * 256 + unat b) 0 (replicate n (0::8 word)) = 0"
  by (induction n) simp_all

lemma be_nat_word32: "n < 256 \<Longrightarrow> be_nat (word32 n) = n"
  by (simp add: be_nat_def word32_def foldl_zeros unat_of_nat)

lemma mload_here: "mload (word32 n @ rest) 0 = be_nat (word32 n)"
  by (simp add: mload_def length_word32)

lemma mload_skip: "32 \<le> k \<Longrightarrow> mload (word32 n @ rest) k = mload rest (k - 32)"
  by (simp add: mload_def length_word32)

lemma mload_last: "mload (word32 n) 0 = be_nat (word32 n)"
  by (simp add: mload_def length_word32)

lemma upt3: "[0..<3] = [0, 1, 2]"
  by (simp add: upt_rec)

lemma decode_sample_results: "abi_decode_uint32_array sample_results = Some [2, 100, 90]"
  by (simp add: abi_decode_uint32_array_def sample_results_def Let_def length_word32
      mload_here mload_skip mload_last be_nat_word32 decode_uint32_word_def upt3)

lemma decode_sample_results_strategy7:
  "abi_decode_uint32_array sample_results_strategy7 = Some [7, 100, 90]"
  by (simp add: abi_decode_uint32_array_def sample_results_strategy7_def Let_def length_word32
      mload_here mload_skip mload_last be_nat_word32 decode_uint32_word_def upt3)

lemma decode_word32: "n < 256 \<Longrightarrow> abi_decode_uint32 (word32 n) = Some (of_nat n)"
  by (simp add: abi_decode_uint32_def length_word32 mload_last be_nat_word32
      decode_uint32_word_def)

lemma alice_bob: "alice \<noteq> bob"
  by (simp add: alice_def bob_def)

subsection \<open>The signature check\<close>


lemma checkSignatures_cases:
  "checkSignatures lib s requestId payload prf =
     (if requestedHandles s requestId = [] then Some NoHandleFoundForRequestID
      else if verifySignatures lib requestId (requestedHandles s requestId) payload prf then None
      else Some InvalidSignatures)"
  by (simp add: checkSignatures_def Let_def)

lemma check_sample:
  "requestedHandles s requestId \<noteq> [] \<Longrightarrow>
     checkSignatures sample_lib s requestId payload (ucast requestId # payload) = None"
  by (simp add: checkSignatures_def sample_lib_def)

lemma check_sample_empty:
  "requestedHandles s requestId \<noteq> [] \<Longrightarrow>
     checkSignatures sample_lib s requestId payload [] = Some InvalidSignatures"
  by (simp add: checkSignatures_def sample_lib_def)

subsection \<open>The callback when it accepts\<close>

lemma runSimulation_accepts:
  assumes "checkSignatures lib s requestId results prf = None"
    and "abi_decode_uint32_array results = Some simResults"
    and "3 \<le> length simResults"
  shows "runSimulation lib s sender requestId results prf =
     Inr (s\<lparr>simulationResults := (simulationResults s)(sender :=
              \<lparr>encryptedStrategy = asEuint32 lib (simResults ! 0),
               encryptedWithdrawal = asEuint32 lib (simResults ! 1),
               encryptedSuccessRate = asEuint32 lib (simResults ! 2),
               isSimulated = True\<rparr>)\<rparr>,
          [Emit (SimulationCompleted sender)])"
  using assms by (simp add: runSimulation_def)

subsection \<open>Frame lemmas for histories\<close>

lemma transact_userFinancialData:
  "\<not> submits_as a tx \<Longrightarrow> userFinancialData (transact lib s tx) a = userFinancialData s a"
  by (cases tx; cases "snd tx")
    (auto simp: transact_def state_after_def submits_as_def submitEncryptedData_def
      requestRetirementSimulation_def runSimulation_def requestStrategyDecryption_def
      decryptStrategy_def requestComputation_def requestDecryption_def Let_def
      split: option.splits)

lemma run_userFinancialData:
  "\<forall>tx \<in> set txs. \<not> submits_as a tx \<Longrightarrow>
     userFinancialData (run lib s txs) a = userFinancialData s a"
  unfolding run_def
  by (induction txs arbitrary: s) (simp_all add: transact_userFinancialData)

lemma run_snoc: "run lib s (txs @ [tx]) = transact lib (run lib s txs) tx"
  by (simp add: run_def)


lemma not_initialised_zero: "\<not> onlyDataOwner init_state a"
  by (simp add: onlyDataOwner_def init_state_def zero_data_def isInitialized_def)





subsection \<open>The sample states\<close>

lemma alice_submitted_eq:
  "alice_submitted = init_state
     \<lparr>userFinancialData := (userFinancialData init_state)(alice :=
        \<lparr>encryptedAssets = Euint32 11, encryptedAnnualIncome = Euint32 12,
         encryptedRetirementAge = Euint32 13, encryptedLifeExpectancy = Euint32 14,
         encryptedTargetIncome = Euint32 15\<rparr>),
      simulationResults := (simulationResults init_state)(alice :=
        \<lparr>encryptedStrategy = asEuint32 sample_lib 0, encryptedWithdrawal = asEuint32 sample_lib 0,
         encryptedSuccessRate = asEuint32 sample_lib 0, isSimulated = False\<rparr>)\<rparr>"
  by (simp add: alice_submitted_def sample_submit_def transact_def state_after_def
      submitEncryptedData_def)

lemma alice_submitted_data:
  "userFinancialData alice_submitted alice =
     \<lparr>encryptedAssets = Euint32 11, encryptedAnnualIncome = Euint32 12,
      encryptedRetirementAge = Euint32 13, encryptedLifeExpectancy = Euint32 14,
      encryptedTargetIncome = Euint32 15\<rparr>"
  by (simp add: alice_submitted_eq)

lemma alice_submitted_result:
  "simulationResults alice_submitted alice =
     \<lparr>encryptedStrategy = asEuint32 sample_lib 0, encryptedWithdrawal = asEuint32 sample_lib 0,
      encryptedSuccessRate = asEuint32 sample_lib 0, isSimulated = False\<rparr>"
  by (simp add: alice_submitted_eq)

lemma alice_submitted_bob:
  "userFinancialData alice_submitted bob = zero_data \<and>
   simulationResults alice_submitted bob = zero_result"
  using alice_bob by (simp add: alice_submitted_eq init_state_def)

lemma alice_submitted_library:
  "counterRequest alice_submitted = 0 \<and> requestedHandles alice_submitted = (\<lambda>_. [])"
  by (simp add: alice_submitted_eq init_state_def)

lemma alice_request:
  "requestRetirementSimulation sample_lib alice_submitted alice =
     Inr (alice_submitted\<lparr>requestedHandles := (\<lambda>_. [])(0 := [11, 12, 13, 14, 15]),
            counterRequest := 1\<rparr>,
          [RequestComputation [11, 12, 13, 14, 15] RunSimulation_selector 0,
           Emit (SimulationRequested alice)])"
  by (simp add: requestRetirementSimulation_def onlyDataOwner_def isInitialized_def
      alice_submitted_data alice_submitted_result alice_submitted_library toBytes32_def
      requestComputation_def Let_def)

lemma alice_requested_eq:
  "alice_requested = alice_submitted\<lparr>requestedHandles := (\<lambda>_. [])(0 := [11, 12, 13, 14, 15]),
     counterRequest := 1\<rparr>"
  by (simp add: alice_requested_def transact_def state_after_def alice_request)

lemma alice_requested_record: "requestedHandles alice_requested 0 \<noteq> []"
  by (simp add: alice_requested_eq)

lemma alice_delivery:
  "runSimulation sample_lib alice_requested alice 0 sample_results (0 # sample_results) =
     Inr (alice_requested\<lparr>simulationResults := (simulationResults alice_requested)(alice :=
            \<lparr>encryptedStrategy = asEuint32 sample_lib 2,
             encryptedWithdrawal = asEuint32 sample_lib 100,
             encryptedSuccessRate = asEuint32 sample_lib 90, isSimulated = True\<rparr>)\<rparr>,
          [Emit (SimulationCompleted alice)])"
  using runSimulation_accepts
      [OF check_sample [OF alice_requested_record, of sample_results] decode_sample_results,
        of alice]
  by simp

lemma alice_completed_eq:
  "alice_completed = alice_requested\<lparr>simulationResults := (simulationResults alice_requested)(alice :=
      \<lparr>encryptedStrategy = asEuint32 sample_lib 2, encryptedWithdrawal = asEuint32 sample_lib 100,
       encryptedSuccessRate = asEuint32 sample_lib 90, isSimulated = True\<rparr>)\<rparr>"
  by (simp add: alice_completed_def transact_def state_after_def alice_delivery)

lemma alice_completed_data:
  "userFinancialData alice_completed alice = userFinancialData alice_submitted alice"
  by (simp add: alice_completed_eq alice_requested_eq)

lemma alice_completed_result:
  "simulationResults alice_completed alice =
     \<lparr>encryptedStrategy = asEuint32 sample_lib 2, encryptedWithdrawal = asEuint32 sample_lib 100,
      encryptedSuccessRate = asEuint32 sample_lib 90, isSimulated = True\<rparr>"
  by (simp add: alice_completed_eq)

lemma alice_completed_library:
  "counterRequest alice_completed = 1 \<and>
   requestedHandles alice_completed = (\<lambda>_. [])(0 := [11, 12, 13, 14, 15])"
  by (simp add: alice_completed_eq alice_requested_eq)

lemma alice_owner:
  "isInitialized (encryptedAssets (userFinancialData alice_submitted alice)) \<and>
   isInitialized (encryptedAssets (userFinancialData alice_requested alice)) \<and>
   isInitialized (encryptedAssets (userFinancialData alice_completed alice))"
  by (simp add: alice_completed_data alice_requested_eq alice_submitted_data isInitialized_def)

lemma alice_decryption_request:
  "requestStrategyDecryption sample_lib alice_completed alice =
     Inr (alice_completed\<lparr>requestedHandles :=
              (requestedHandles alice_completed)(1 := [unwrap (asEuint32 sample_lib 2)]),
            counterRequest := 2\<rparr>,
          [RequestDecryption [unwrap (asEuint32 sample_lib 2)] DecryptStrategy_selector 1])"
  using alice_owner
  by (simp add: requestStrategyDecryption_def onlyDataOwner_def alice_completed_result
      alice_completed_library toBytes32_def requestDecryption_def Let_def)

lemma alice_decrypting_eq:
  "alice_decrypting = alice_completed\<lparr>requestedHandles :=
        (requestedHandles alice_completed)(1 := [unwrap (asEuint32 sample_lib 2)]),
      counterRequest := 2\<rparr>"
  by (simp add: alice_decrypting_def transact_def state_after_def alice_decryption_request)

lemma alice_decrypting_record: "requestedHandles alice_decrypting 1 \<noteq> []"
  by (simp add: alice_decrypting_eq)





lemma bob_delivery:
  "runSimulation sample_lib alice_requested bob 0 sample_results (0 # sample_results) =
     Inr (alice_requested\<lparr>simulationResults := (simulationResults alice_requested)(bob :=
            \<lparr>encryptedStrategy = asEuint32 sample_lib 2,
             encryptedWithdrawal = asEuint32 sample_lib 100,
             encryptedSuccessRate = asEuint32 sample_lib 90, isSimulated = True\<rparr>)\<rparr>,
          [Emit (SimulationCompleted bob)])"
  using runSimulation_accepts
      [OF check_sample [OF alice_requested_record, of sample_results] decode_sample_results,
        of bob]
  by simp

lemma bob_delivered_eq:
  "bob_delivered = alice_requested\<lparr>simulationResults := (simulationResults alice_requested)(bob :=
      \<lparr>encryptedStrategy = asEuint32 sample_lib 2, encryptedWithdrawal = asEuint32 sample_lib 100,
       encryptedSuccessRate = asEuint32 sample_lib 90, isSimulated = True\<rparr>)\<rparr>"
  by (simp add: bob_delivered_def transact_def state_after_def bob_delivery)



subsection \<open>Rejected proofs\<close>

text \<open>
  Claim C4. A simulation callback whose proof fails verification is rejected: when
  handles are recorded under the request identifier and the proof does not verify for
  them, the call reverts with the signature failure of \<^verbatim>\<open>FHE.checkSignatures\<close> (the
  InvalidProof of the specification). Whatever the failure of the check, the
  transaction leaves the whole state as it was, so no owner's \<open>isSimulated\<close> flag
  becomes true on this path.
\<close>

theorem C4_invalid_proof_rejected:
  "(requestedHandles s requestId \<noteq> [] \<and>
    \<not> verifySignatures lib requestId (requestedHandles s requestId) results prf \<longrightarrow>
      runSimulation lib s sender requestId results prf = Inl InvalidSignatures \<and>
      transact lib s (sender, RunSimulation requestId results prf) = s) \<and>
   (checkSignatures lib s requestId results prf = Some e \<longrightarrow>
      runSimulation lib s sender requestId results prf = Inl e \<and>
      transact lib s (sender, RunSimulation requestId results prf) = s)"
  by (simp add: runSimulation_def transact_def state_after_def checkSignatures_cases)

text \<open>
  The sample library rejects the empty proof for Alice's outstanding request; the state
  stays.
\<close>

theorem C4_invalid_proof_rejected_witness:
  "requestedHandles alice_requested 0 \<noteq> [] \<and>
   \<not> verifySignatures sample_lib 0 (requestedHandles alice_requested 0) sample_results [] \<and>
   checkSignatures sample_lib alice_requested 0 sample_results [] = Some InvalidSignatures \<and>
   runSimulation sample_lib alice_requested alice 0 sample_results [] = Inl InvalidSignatures \<and>
   transact sample_lib alice_requested (alice, RunSimulation 0 sample_results []) = alice_requested"
proof -
  have bad: "\<not> verifySignatures sample_lib 0 (requestedHandles alice_requested 0) sample_results []"
    by (simp add: sample_lib_def)
  show ?thesis
    using C4_invalid_proof_rejected
        [of alice_requested 0 sample_lib sample_results "[]" alice InvalidSignatures]
      alice_requested_record bad check_sample_empty [OF alice_requested_record, of sample_results]
    by simp
qed

subsection \<open>Submission\<close>

text \<open>
  Claim C5. A call of \<^verbatim>\<open>submitEncryptedData\<close> never reverts; it replaces the sender's
  financial record with the five supplied handles and resets the sender's
  SimulationResult to three encryptions of zero with \<open>isSimulated = False\<close>. This holds
  in every state, so also after a completed simulation: whatever history precedes a
  submission, the sender's \<open>isSimulated\<close> is false right after it.
\<close>

theorem C5_submit_resets:
  "dispatch lib s a (SubmitEncryptedData assets annualIncome retirementAge lifeExpectancy targetIncome) =
     Inr (transact lib s (a, SubmitEncryptedData assets annualIncome retirementAge lifeExpectancy targetIncome),
          [Emit (FinancialDataSubmitted a)]) \<and>
   userFinancialData (transact lib s (a, SubmitEncryptedData assets annualIncome retirementAge lifeExpectancy targetIncome)) a =
     \<lparr>encryptedAssets = assets, encryptedAnnualIncome = annualIncome,
      encryptedRetirementAge = retirementAge, encryptedLifeExpectancy = lifeExpectancy,
      encryptedTargetIncome = targetIncome\<rparr> \<and>
   simulationResults (transact lib s (a, SubmitEncryptedData assets annualIncome retirementAge lifeExpectancy targetIncome)) a =
     \<lparr>encryptedStrategy = asEuint32 lib 0, encryptedWithdrawal = asEuint32 lib 0,
      encryptedSuccessRate = asEuint32 lib 0, isSimulated = False\<rparr> \<and>
   \<not> isSimulated (simulationResults
        (run lib s (txs @ [(a, SubmitEncryptedData assets annualIncome retirementAge lifeExpectancy targetIncome)])) a)"
  by (simp add: run_snoc transact_def state_after_def submitEncryptedData_def)

text \<open>Alice resubmits after her simulation completed.\<close>

theorem C5_submit_resets_witness:
  "isSimulated (simulationResults alice_completed alice) \<and>
   dispatch sample_lib alice_completed alice sample_submit =
     Inr (transact sample_lib alice_completed (alice, sample_submit),
          [Emit (FinancialDataSubmitted alice)]) \<and>
   userFinancialData (transact sample_lib alice_completed (alice, sample_submit)) alice =
     \<lparr>encryptedAssets = Euint32 11, encryptedAnnualIncome = Euint32 12,
      encryptedRetirementAge = Euint32 13, encryptedLifeExpectancy = Euint32 14,
      encryptedTargetIncome = Euint32 15\<rparr> \<and>
   simulationResults (transact sample_lib alice_completed (alice, sample_submit)) alice =
     \<lparr>encryptedStrategy = asEuint32 sample_lib 0, encryptedWithdrawal = asEuint32 sample_lib 0,
      encryptedSuccessRate = asEuint32 sample_lib 0, isSimulated = False\<rparr> \<and>
   \<not> isSimulated (simulationResults
        (run sample_lib init_state
          [(alice, sample_submit), (alice, RequestRetirementSimulation),
           (alice, RunSimulation 0 sample_results (0 # sample_results)),
           (alice, sample_submit)]) alice)"
  using C5_submit_resets [of sample_lib alice_completed alice "Euint32 11" "Euint32 12"
      "Euint32 13" "Euint32 14" "Euint32 15" "[]"]
    C5_submit_resets [of sample_lib init_state alice "Euint32 11" "Euint32 12"
      "Euint32 13" "Euint32 14" "Euint32 15"
      "[(alice, sample_submit), (alice, RequestRetirementSimulation),
        (alice, RunSimulation 0 sample_results (0 # sample_results))]"]
  by (simp add: sample_submit_def alice_completed_result)

subsection \<open>Requesting a simulation\<close>

text \<open>
  Claim C6. \<^verbatim>\<open>requestRetirementSimulation\<close> checks, in this order, that the sender has
  a populated record (otherwise it reverts with "No data submitted", the
  DataOwnerRequired of the specification) and that the sender's result is not marked
  simulated (otherwise "Simulation already completed", the AlreadySimulated of the
  specification). Otherwise it hands the five handles of the sender's record to the
  dispatcher, with the selector of \<^verbatim>\<open>runSimulation\<close>, and emits SimulationRequested
  for the sender; the library records the five handles under the identifier it issues,
  and the two mappings of the contract are not written.
\<close>

theorem C6_request_simulation:
  "(\<not> isInitialized (encryptedAssets (userFinancialData s a)) \<longrightarrow>
      requestRetirementSimulation lib s a = Inl (Error ''No data submitted'')) \<and>
   (isInitialized (encryptedAssets (userFinancialData s a)) \<and> isSimulated (simulationResults s a) \<longrightarrow>
      requestRetirementSimulation lib s a = Inl (Error ''Simulation already completed'')) \<and>
   (isInitialized (encryptedAssets (userFinancialData s a)) \<and> \<not> isSimulated (simulationResults s a) \<longrightarrow>
      requestRetirementSimulation lib s a =
        Inr (s\<lparr>requestedHandles := (requestedHandles s)(counterRequest s :=
                   [unwrap (encryptedAssets (userFinancialData s a)),
                    unwrap (encryptedAnnualIncome (userFinancialData s a)),
                    unwrap (encryptedRetirementAge (userFinancialData s a)),
                    unwrap (encryptedLifeExpectancy (userFinancialData s a)),
                    unwrap (encryptedTargetIncome (userFinancialData s a))]),
               counterRequest := counterRequest s + 1\<rparr>,
             [RequestComputation
                [unwrap (encryptedAssets (userFinancialData s a)),
                 unwrap (encryptedAnnualIncome (userFinancialData s a)),
                 unwrap (encryptedRetirementAge (userFinancialData s a)),
                 unwrap (encryptedLifeExpectancy (userFinancialData s a)),
                 unwrap (encryptedTargetIncome (userFinancialData s a))]
                RunSimulation_selector (counterRequest s),
              Emit (SimulationRequested a)]))"
  by (simp add: requestRetirementSimulation_def onlyDataOwner_def toBytes32_def Let_def
      requestComputation_def)

text \<open>
  The three cases at the sample data: Bob never submitted, Alice after a completed
  simulation, Alice right after her submission.
\<close>

theorem C6_request_simulation_witness:
  "\<not> isInitialized (encryptedAssets (userFinancialData init_state bob)) \<and>
   requestRetirementSimulation sample_lib init_state bob = Inl (Error ''No data submitted'') \<and>
   isInitialized (encryptedAssets (userFinancialData alice_completed alice)) \<and>
   isSimulated (simulationResults alice_completed alice) \<and>
   requestRetirementSimulation sample_lib alice_completed alice =
     Inl (Error ''Simulation already completed'') \<and>
   isInitialized (encryptedAssets (userFinancialData alice_submitted alice)) \<and>
   \<not> isSimulated (simulationResults alice_submitted alice) \<and>
   requestRetirementSimulation sample_lib alice_submitted alice =
     Inr (alice_requested,
          [RequestComputation [11, 12, 13, 14, 15] RunSimulation_selector 0,
           Emit (SimulationRequested alice)])"
proof -
  have none: "\<not> isInitialized (encryptedAssets (userFinancialData init_state bob))"
    by (simp add: init_state_def zero_data_def isInitialized_def)
  have sim: "isSimulated (simulationResults alice_completed alice)"
    by (simp add: alice_completed_result)
  have fresh: "\<not> isSimulated (simulationResults alice_submitted alice)"
    by (simp add: alice_submitted_result)
  show ?thesis
    using C6_request_simulation [of init_state bob sample_lib]
      C6_request_simulation [of alice_completed alice sample_lib]
      C6_request_simulation [of alice_submitted alice sample_lib]
      none alice_owner sim fresh
    by (simp add: alice_submitted_data alice_submitted_library alice_requested_eq)
qed

subsection \<open>Requesting the decryption of the strategy\<close>

text \<open>
  Claim C8. While the sender's \<open>isSimulated\<close> is not true,
  \<^verbatim>\<open>requestStrategyDecryption\<close> always fails. For every owner, that is every sender
  with a populated financial record, the failure is "Simulation not completed" (the
  SimulationNotCompleted of the specification); when the owner's \<open>isSimulated\<close> is
  true, the call hands exactly one handle to the decryption dispatcher, the encrypted
  strategy, and neither the withdrawal nor the success rate, and the library records
  that one handle under the identifier it issues. (A sender with no record is stopped
  before, by the modifier \<^verbatim>\<open>onlyDataOwner\<close>.)
\<close>

theorem C8_request_decryption:
  "(\<not> isSimulated (simulationResults s a) \<longrightarrow> isl (requestStrategyDecryption lib s a)) \<and>
   (isInitialized (encryptedAssets (userFinancialData s a)) \<longrightarrow>
      (\<not> isSimulated (simulationResults s a) \<longrightarrow>
         requestStrategyDecryption lib s a = Inl (Error ''Simulation not completed'')) \<and>
      (isSimulated (simulationResults s a) \<longrightarrow>
         requestStrategyDecryption lib s a =
           Inr (s\<lparr>requestedHandles := (requestedHandles s)(counterRequest s :=
                      [unwrap (encryptedStrategy (simulationResults s a))]),
                  counterRequest := counterRequest s + 1\<rparr>,
                [RequestDecryption [unwrap (encryptedStrategy (simulationResults s a))]
                   DecryptStrategy_selector (counterRequest s)])))"
  by (simp add: requestStrategyDecryption_def onlyDataOwner_def toBytes32_def Let_def
      requestDecryption_def)

text \<open>Alice right after her submission, and Alice after a completed simulation.\<close>

theorem C8_request_decryption_witness:
  "isInitialized (encryptedAssets (userFinancialData alice_submitted alice)) \<and>
   \<not> isSimulated (simulationResults alice_submitted alice) \<and>
   isl (requestStrategyDecryption sample_lib alice_submitted alice) \<and>
   requestStrategyDecryption sample_lib alice_submitted alice =
     Inl (Error ''Simulation not completed'') \<and>
   isInitialized (encryptedAssets (userFinancialData alice_completed alice)) \<and>
   isSimulated (simulationResults alice_completed alice) \<and>
   requestStrategyDecryption sample_lib alice_completed alice =
     Inr (alice_decrypting,
          [RequestDecryption [unwrap (asEuint32 sample_lib 2)] DecryptStrategy_selector 1])"
  using C8_request_decryption [of alice_submitted alice sample_lib]
    C8_request_decryption [of alice_completed alice sample_lib] alice_owner
  by (simp add: alice_submitted_result alice_completed_result alice_completed_library
      alice_decrypting_eq)

subsection \<open>Reading the encrypted result\<close>

text \<open>
  Claim C10. After any history that holds no submission sent by the caller, both reads
  revert with "No data submitted" (the DataOwnerRequired of the specification). Once the
  caller's record is populated, each read returns the handle stored in the caller's
  SimulationResult, whether \<open>isSimulated\<close> is true or not; right after a submission
  these are the encryptions of zero. The reads are \<^verbatim>\<open>view\<close> functions: they return a
  value and have no state to return.
\<close>

theorem C10_read_encrypted_result:
  "((\<forall>tx \<in> set txs. \<not> submits_as a tx) \<longrightarrow>
      getEncryptedWithdrawal (run lib init_state txs) a = Inl (Error ''No data submitted'') \<and>
      getEncryptedSuccessRate (run lib init_state txs) a = Inl (Error ''No data submitted'')) \<and>
   (isInitialized (encryptedAssets (userFinancialData s a)) \<longrightarrow>
      getEncryptedWithdrawal s a = Inr (encryptedWithdrawal (simulationResults s a)) \<and>
      getEncryptedSuccessRate s a = Inr (encryptedSuccessRate (simulationResults s a))) \<and>
   (isInitialized assets \<longrightarrow>
      getEncryptedWithdrawal
        (transact lib s (a, SubmitEncryptedData assets annualIncome retirementAge
           lifeExpectancy targetIncome)) a = Inr (asEuint32 lib 0) \<and>
      getEncryptedSuccessRate
        (transact lib s (a, SubmitEncryptedData assets annualIncome retirementAge
           lifeExpectancy targetIncome)) a = Inr (asEuint32 lib 0))"
proof -
  have before: "\<not> onlyDataOwner (run lib init_state txs) a"
    if "\<forall>tx \<in> set txs. \<not> submits_as a tx"
    using run_userFinancialData [OF that, of lib init_state] not_initialised_zero [of a]
    by (simp add: onlyDataOwner_def)
  have stored: "getEncryptedWithdrawal s a = Inr (encryptedWithdrawal (simulationResults s a)) \<and>
      getEncryptedSuccessRate s a = Inr (encryptedSuccessRate (simulationResults s a))"
    if "isInitialized (encryptedAssets (userFinancialData s a))"
    using that
    by (simp add: getEncryptedWithdrawal_def getEncryptedSuccessRate_def onlyDataOwner_def)
  have fresh: "getEncryptedWithdrawal
        (transact lib s (a, SubmitEncryptedData assets annualIncome retirementAge
           lifeExpectancy targetIncome)) a = Inr (asEuint32 lib 0) \<and>
      getEncryptedSuccessRate
        (transact lib s (a, SubmitEncryptedData assets annualIncome retirementAge
           lifeExpectancy targetIncome)) a = Inr (asEuint32 lib 0)"
    if "isInitialized assets"
    using that
    by (simp add: getEncryptedWithdrawal_def getEncryptedSuccessRate_def onlyDataOwner_def
        transact_def state_after_def submitEncryptedData_def)
  from before stored fresh show ?thesis
    by (simp add: getEncryptedWithdrawal_def getEncryptedSuccessRate_def)
qed

text \<open>
  Bob reads after a history in which only Alice acted; Alice reads before and after her
  simulation completed.
\<close>

theorem C10_read_encrypted_result_witness:
  "\<not> submits_as bob (alice, sample_submit) \<and>
   \<not> submits_as bob (alice, RequestRetirementSimulation) \<and>
   getEncryptedWithdrawal
     (run sample_lib init_state [(alice, sample_submit), (alice, RequestRetirementSimulation)]) bob =
     Inl (Error ''No data submitted'') \<and>
   getEncryptedSuccessRate
     (run sample_lib init_state [(alice, sample_submit), (alice, RequestRetirementSimulation)]) bob =
     Inl (Error ''No data submitted'') \<and>
   isInitialized (encryptedAssets (userFinancialData alice_submitted alice)) \<and>
   \<not> isSimulated (simulationResults alice_submitted alice) \<and>
   getEncryptedWithdrawal alice_submitted alice = Inr (asEuint32 sample_lib 0) \<and>
   getEncryptedSuccessRate alice_submitted alice = Inr (asEuint32 sample_lib 0) \<and>
   isInitialized (encryptedAssets (userFinancialData alice_completed alice)) \<and>
   isSimulated (simulationResults alice_completed alice) \<and>
   getEncryptedWithdrawal alice_completed alice = Inr (asEuint32 sample_lib 100) \<and>
   getEncryptedSuccessRate alice_completed alice = Inr (asEuint32 sample_lib 90) \<and>
   isInitialized (Euint32 11) \<and>
   getEncryptedWithdrawal (transact sample_lib alice_completed (alice, sample_submit)) alice =
     Inr (asEuint32 sample_lib 0)"
proof -
  have quiet: "\<forall>tx \<in> set [(alice, sample_submit), (alice, RequestRetirementSimulation)].
      \<not> submits_as bob tx"
    using alice_bob by (simp add: submits_as_def)
  show ?thesis
    using C10_read_encrypted_result
        [of "[(alice, sample_submit), (alice, RequestRetirementSimulation)]" bob sample_lib
          alice_submitted "Euint32 11" "Euint32 12" "Euint32 13" "Euint32 14" "Euint32 15"]
      C10_read_encrypted_result [of "[]" alice sample_lib alice_submitted
          "Euint32 11" "Euint32 12" "Euint32 13" "Euint32 14" "Euint32 15"]
      C10_read_encrypted_result [of "[]" alice sample_lib alice_completed
          "Euint32 11" "Euint32 12" "Euint32 13" "Euint32 14" "Euint32 15"]
      quiet alice_owner
    by (simp add: alice_submitted_result alice_completed_result sample_submit_def
        isInitialized_def)
qed

subsection \<open>The callback routes by sender\<close>

text \<open>
  Claim C3. Let the proof pass \<^verbatim>\<open>FHE.checkSignatures\<close> and let the results decode (to
  the at least three values the callback reads). Then a call of \<^verbatim>\<open>runSimulation\<close>
  sent by any address \<open>a\<close>, in any state, succeeds and writes the encryptions of the
  decoded values into \<open>simulationResults a\<close>, the sender's own entry, with
  \<open>isSimulated = True\<close>; the entry of every other address stays as it was. Nothing
  about \<open>a\<close> is consulted: \<open>a\<close> need not have submitted or requested anything, and
  the record the library keeps of a request holds its handles, not its requester.
\<close>

theorem C3_callback_routes_by_sender:
  assumes "checkSignatures lib s requestId results prf = None"
    and "abi_decode_uint32_array results = Some simResults"
    and "3 \<le> length simResults"
  shows "dispatch lib s a (RunSimulation requestId results prf) =
           Inr (transact lib s (a, RunSimulation requestId results prf),
                [Emit (SimulationCompleted a)]) \<and>
         simulationResults (transact lib s (a, RunSimulation requestId results prf)) a =
           \<lparr>encryptedStrategy = asEuint32 lib (simResults ! 0),
            encryptedWithdrawal = asEuint32 lib (simResults ! 1),
            encryptedSuccessRate = asEuint32 lib (simResults ! 2),
            isSimulated = True\<rparr> \<and>
         (\<forall>b. b \<noteq> a \<longrightarrow>
            simulationResults (transact lib s (a, RunSimulation requestId results prf)) b =
              simulationResults s b)"
  using runSimulation_accepts [OF assms, of a]
  by (simp add: transact_def state_after_def)

text \<open>
  Bob, who never submitted or requested anything, delivers the result of Alice's
  request, the only one outstanding: the result lands in Bob's entry, not in Alice's.
\<close>

theorem C3_callback_routes_by_sender_witness:
  "checkSignatures sample_lib alice_requested 0 sample_results (0 # sample_results) = None \<and>
   abi_decode_uint32_array sample_results = Some [2, 100, 90] \<and>
   3 \<le> length [2 :: uint32, 100, 90] \<and>
   userFinancialData alice_requested bob = zero_data \<and>
   simulationResults
     (transact sample_lib alice_requested (bob, RunSimulation 0 sample_results (0 # sample_results))) bob =
     \<lparr>encryptedStrategy = asEuint32 sample_lib 2, encryptedWithdrawal = asEuint32 sample_lib 100,
      encryptedSuccessRate = asEuint32 sample_lib 90, isSimulated = True\<rparr> \<and>
   alice \<noteq> bob \<and>
   simulationResults
     (transact sample_lib alice_requested (bob, RunSimulation 0 sample_results (0 # sample_results))) alice =
     simulationResults alice_requested alice"
proof -
  have len: "3 \<le> length [2 :: uint32, 100, 90]"
    by simp
  have check: "checkSignatures sample_lib alice_requested 0 sample_results (0 # sample_results) = None"
    using check_sample [OF alice_requested_record, of sample_results] by simp
  have nobody: "userFinancialData alice_requested bob = zero_data"
    using alice_submitted_bob by (simp add: alice_requested_eq)
  show ?thesis
    using C3_callback_routes_by_sender [OF check decode_sample_results len, of bob]
      check decode_sample_results alice_bob nobody
    by simp
qed

subsection \<open>Request identifiers are resolved and never consumed\<close>




subsection \<open>What an accepted callback writes\<close>

text \<open>
  Claim C2, as stated, fails: the result is not written for the owner who issued the
  request. Alice submits and requests, and her request is issued the identifier 0. Bob
  then delivers the result for identifier 0 with a verifying proof: the callback
  writes Bob's entry and emits SimulationCompleted for Bob, and Alice's result stays
  unsimulated.
\<close>

theorem C2_requesting_owner_counterexample:
  "requestRetirementSimulation sample_lib alice_submitted alice =
     Inr (alice_requested,
          [RequestComputation [11, 12, 13, 14, 15] RunSimulation_selector 0,
           Emit (SimulationRequested alice)]) \<and>
   checkSignatures sample_lib alice_requested 0 sample_results (0 # sample_results) = None \<and>
   runSimulation sample_lib alice_requested bob 0 sample_results (0 # sample_results) =
     Inr (bob_delivered, [Emit (SimulationCompleted bob)]) \<and>
   \<not> isSimulated (simulationResults bob_delivered alice) \<and>
   isSimulated (simulationResults bob_delivered bob)"
proof -
  have request: "requestRetirementSimulation sample_lib alice_submitted alice =
      Inr (alice_requested,
           [RequestComputation [11, 12, 13, 14, 15] RunSimulation_selector 0,
            Emit (SimulationRequested alice)])"
    by (simp add: alice_request alice_requested_eq)
  have check: "checkSignatures sample_lib alice_requested 0 sample_results (0 # sample_results) = None"
    using check_sample [OF alice_requested_record, of sample_results] by simp
  have delivery: "runSimulation sample_lib alice_requested bob 0 sample_results
      (0 # sample_results) = Inr (bob_delivered, [Emit (SimulationCompleted bob)])"
    by (simp add: bob_delivery bob_delivered_eq)
  have alice_not: "\<not> isSimulated (simulationResults bob_delivered alice)"
    using alice_bob by (simp add: bob_delivered_eq alice_requested_eq alice_submitted_result)
  have bob_is: "isSimulated (simulationResults bob_delivered bob)"
    by (simp add: bob_delivered_eq)
  from request check delivery alice_not bob_is show ?thesis
    by blast
qed

text \<open>
  Claim C2, amended. For every simulation callback whose proof verifies and whose result
  bytes decode to an array of at least three values, the first three values are turned
  into encrypted-domain values (strategy, withdrawal, success rate) and written into the
  SimulationResult of the sender of the callback, with \<open>isSimulated = True\<close>, and
  SimulationCompleted is emitted for the sender. Nothing else is written: the financial
  records stay, and so does what is recorded for the request, which is not deleted.
\<close>

theorem C2_accepted_callback:
  assumes "checkSignatures lib s requestId results prf = None"
    and "abi_decode_uint32_array results = Some simResults"
    and "3 \<le> length simResults"
  shows "runSimulation lib s sender requestId results prf =
     Inr (\<lparr>userFinancialData = userFinancialData s,
           simulationResults = (simulationResults s)(sender :=
              \<lparr>encryptedStrategy = asEuint32 lib (simResults ! 0),
               encryptedWithdrawal = asEuint32 lib (simResults ! 1),
               encryptedSuccessRate = asEuint32 lib (simResults ! 2),
               isSimulated = True\<rparr>),
           counterRequest = counterRequest s,
           requestedHandles = requestedHandles s\<rparr>,
          [Emit (SimulationCompleted sender)])"
  using runSimulation_accepts [OF assms, of sender] by simp

text \<open>Alice receives the result of her request.\<close>

theorem C2_accepted_callback_witness:
  "checkSignatures sample_lib alice_requested 0 sample_results (0 # sample_results) = None \<and>
   abi_decode_uint32_array sample_results = Some [2, 100, 90] \<and>
   3 \<le> length [2 :: uint32, 100, 90] \<and>
   runSimulation sample_lib alice_requested alice 0 sample_results (0 # sample_results) =
     Inr (\<lparr>userFinancialData = userFinancialData alice_requested,
           simulationResults = (simulationResults alice_requested)(alice :=
              \<lparr>encryptedStrategy = asEuint32 sample_lib 2,
               encryptedWithdrawal = asEuint32 sample_lib 100,
               encryptedSuccessRate = asEuint32 sample_lib 90,
               isSimulated = True\<rparr>),
           counterRequest = counterRequest alice_requested,
           requestedHandles = requestedHandles alice_requested\<rparr>,
          [Emit (SimulationCompleted alice)])"
proof -
  have len: "3 \<le> length [2 :: uint32, 100, 90]"
    by simp
  have check: "checkSignatures sample_lib alice_requested 0 sample_results (0 # sample_results) = None"
    using check_sample [OF alice_requested_record, of sample_results] by simp
  show ?thesis
    using C2_accepted_callback [OF check decode_sample_results len, of alice]
      check decode_sample_results
    by simp
qed

subsection \<open>The strategy identifier is not checked\<close>

text \<open>
  Claim C7, as stated, fails: the callback has no InvalidResultEncoding failure. A result
  for Alice's request whose strategy identifier is 7 is accepted, and the encryption of
  7 is stored as the sender's strategy.
\<close>

theorem C7_strategy_enumeration_counterexample:
  "checkSignatures sample_lib alice_requested 0 sample_results_strategy7
       (0 # sample_results_strategy7) = None \<and>
   abi_decode_uint32_array sample_results_strategy7 = Some [7, 100, 90] \<and>
   (7 :: uint32) \<notin> {FIXED_PERCENTAGE, INFLATION_ADJUSTED, DYNAMIC_SPENDING} \<and>
   runSimulation sample_lib alice_requested alice 0 sample_results_strategy7
       (0 # sample_results_strategy7) =
     Inr (alice_requested\<lparr>simulationResults := (simulationResults alice_requested)(alice :=
            \<lparr>encryptedStrategy = asEuint32 sample_lib 7,
             encryptedWithdrawal = asEuint32 sample_lib 100,
             encryptedSuccessRate = asEuint32 sample_lib 90, isSimulated = True\<rparr>)\<rparr>,
          [Emit (SimulationCompleted alice)])"
proof -
  have check: "checkSignatures sample_lib alice_requested 0 sample_results_strategy7
      (0 # sample_results_strategy7) = None"
    using check_sample [OF alice_requested_record, of sample_results_strategy7] by simp
  show ?thesis
    using runSimulation_accepts [OF check decode_sample_results_strategy7, of alice]
      check decode_sample_results_strategy7
    by (simp add: FIXED_PERCENTAGE_def INFLATION_ADJUSTED_def DYNAMIC_SPENDING_def)
qed

text \<open>
  Claim C7, amended. For every simulation callback that passes proof verification and
  decodes to at least three values, the decoded strategy identifier is stored, as its
  encryption, whatever its value: also when it is none of the three declared
  strategies the callback succeeds and the sender's result is updated. The constants
  \<open>FIXED_PERCENTAGE\<close>, \<open>INFLATION_ADJUSTED\<close> and \<open>DYNAMIC_SPENDING\<close> are declared
  and never read.
\<close>

theorem C7_strategy_stored_unchecked:
  assumes "checkSignatures lib s requestId results prf = None"
    and "abi_decode_uint32_array results = Some simResults"
    and "3 \<le> length simResults"
    and "simResults ! 0 \<notin> {FIXED_PERCENTAGE, INFLATION_ADJUSTED, DYNAMIC_SPENDING}"
  shows "\<not> isl (runSimulation lib s a requestId results prf) \<and>
         encryptedStrategy
           (simulationResults (transact lib s (a, RunSimulation requestId results prf)) a) =
           asEuint32 lib (simResults ! 0) \<and>
         isSimulated
           (simulationResults (transact lib s (a, RunSimulation requestId results prf)) a)"
  using runSimulation_accepts [OF assms(1-3), of a]
  by (simp add: transact_def state_after_def)

text \<open>The strategy identifier 7, delivered for Alice's request.\<close>

theorem C7_strategy_stored_unchecked_witness:
  "checkSignatures sample_lib alice_requested 0 sample_results_strategy7
       (0 # sample_results_strategy7) = None \<and>
   abi_decode_uint32_array sample_results_strategy7 = Some [7, 100, 90] \<and>
   3 \<le> length [7 :: uint32, 100, 90] \<and>
   [7 :: uint32, 100, 90] ! 0 \<notin> {FIXED_PERCENTAGE, INFLATION_ADJUSTED, DYNAMIC_SPENDING} \<and>
   \<not> isl (runSimulation sample_lib alice_requested alice 0 sample_results_strategy7
       (0 # sample_results_strategy7)) \<and>
   encryptedStrategy
     (simulationResults
       (transact sample_lib alice_requested
         (alice, RunSimulation 0 sample_results_strategy7 (0 # sample_results_strategy7))) alice) =
     asEuint32 sample_lib 7 \<and>
   isSimulated
     (simulationResults
       (transact sample_lib alice_requested
         (alice, RunSimulation 0 sample_results_strategy7 (0 # sample_results_strategy7))) alice)"
proof -
  have len: "3 \<le> length [7 :: uint32, 100, 90]"
    by simp
  have other: "[7 :: uint32, 100, 90] ! 0 \<notin> {FIXED_PERCENTAGE, INFLATION_ADJUSTED, DYNAMIC_SPENDING}"
    by (simp add: FIXED_PERCENTAGE_def INFLATION_ADJUSTED_def DYNAMIC_SPENDING_def)
  have check: "checkSignatures sample_lib alice_requested 0 sample_results_strategy7
      (0 # sample_results_strategy7) = None"
    using check_sample [OF alice_requested_record, of sample_results_strategy7] by simp
  show ?thesis
    using C7_strategy_stored_unchecked
        [OF check decode_sample_results_strategy7 len other, of alice]
      check decode_sample_results_strategy7 other
    by simp
qed

subsection \<open>The decryption callback\<close>

text \<open>
  Claim C9, as stated, fails: the event StrategyDecrypted carries the sender and no
  strategy value. Alice requests the decryption of her strategy (identifier 1). Two
  deliveries for it with verifying proofs, one of the cleartext 2 and one of the
  cleartext 3, have the same outcome and emit the same event.
\<close>

theorem C9_event_payload_counterexample:
  "abi_decode_uint32 (word32 2) = Some 2 \<and>
   abi_decode_uint32 (word32 3) = Some 3 \<and>
   checkSignatures sample_lib alice_decrypting 1 (word32 2) (1 # word32 2) = None \<and>
   checkSignatures sample_lib alice_decrypting 1 (word32 3) (1 # word32 3) = None \<and>
   decryptStrategy sample_lib alice_decrypting alice 1 (word32 2) (1 # word32 2) =
     Inr (alice_decrypting, [Emit (StrategyDecrypted alice)]) \<and>
   decryptStrategy sample_lib alice_decrypting alice 1 (word32 3) (1 # word32 3) =
     Inr (alice_decrypting, [Emit (StrategyDecrypted alice)])"
  using decode_word32 [of 2] decode_word32 [of 3]
    check_sample [OF alice_decrypting_record, of "word32 2"]
    check_sample [OF alice_decrypting_record, of "word32 3"]
  by (simp add: decryptStrategy_def)

text \<open>
  Claim C9, amended. For every decryption callback whose proof verifies and whose
  cleartext bytes decode to a \<^verbatim>\<open>uint32\<close>, the event StrategyDecrypted is emitted
  carrying the sender of the callback only; the decoded strategy value is dropped. The
  cleartext is never written to the state: after any decryption callback, accepted or
  not, every storage field is what it was before.
\<close>

theorem C9_decryption_callback:
  "(checkSignatures lib s requestId cleartexts prf = None \<and>
    abi_decode_uint32 cleartexts = Some strategy \<longrightarrow>
      decryptStrategy lib s a requestId cleartexts prf = Inr (s, [Emit (StrategyDecrypted a)])) \<and>
   transact lib s (a, DecryptStrategy requestId cleartexts prf) = s"
  by (simp add: decryptStrategy_def transact_def state_after_def split: option.splits)

text \<open>The cleartext 2, delivered for Alice's decryption request.\<close>

theorem C9_decryption_callback_witness:
  "checkSignatures sample_lib alice_decrypting 1 (word32 2) (1 # word32 2) = None \<and>
   abi_decode_uint32 (word32 2) = Some 2 \<and>
   decryptStrategy sample_lib alice_decrypting alice 1 (word32 2) (1 # word32 2) =
     Inr (alice_decrypting, [Emit (StrategyDecrypted alice)]) \<and>
   transact sample_lib alice_decrypting (alice, DecryptStrategy 1 (word32 2) (1 # word32 2)) =
     alice_decrypting"
  using C9_decryption_callback
      [of sample_lib alice_decrypting 1 "word32 2" "1 # word32 2" 2 alice]
    decode_word32 [of 2] check_sample [OF alice_decrypting_record, of "word32 2"]
  by simp

end
